theory Spec2Isabelle
  imports Main "HOL-Library.Sublist"
begin

section \<open>JavaScript values used by the scripts\<close>

text \<open>
  The CI script reads environment variables (a string, or \<open>undefined\<close> when the variable
  is not set), returns \<open>null\<close> for an unknown commit and prints numbers and strings.
  These are the values of \<open>jsval\<close>.
\<close>

datatype jsval = JUndefined | JNull | JStr string | JNum nat

text \<open>\<open>!v\<close> is true exactly on the falsy values: \<open>undefined\<close>, \<open>null\<close>, \<open>""\<close> and \<open>0\<close>.\<close>

fun truthy :: "jsval \<Rightarrow> bool" where
  "truthy JUndefined = False"
| "truthy JNull = False"
| "truthy (JStr s) = (s \<noteq> [])"
| "truthy (JNum n) = (n \<noteq> 0)"

text \<open>The decimal rendering of a count, as \<open>'text' + n\<close> produces it.\<close>

definition digit_char :: "nat \<Rightarrow> char" where
  "digit_char d = ''0123456789'' ! d"

fun string_of_nat :: "nat \<Rightarrow> string" where
  "string_of_nat n =
     (if n < 10 then [digit_char n]
      else string_of_nat (n div 10) @ [digit_char (n mod 10)])"

declare string_of_nat.simps [simp del]

text \<open>The conversion that \<open>'text' + v\<close> applies to \<open>v\<close>.\<close>

fun to_string :: "jsval \<Rightarrow> string" where
  "to_string JUndefined = ''undefined''"
| "to_string JNull = ''null''"
| "to_string (JStr s) = s"
| "to_string (JNum n) = string_of_nat n"

text \<open>\<open>xs[i]\<close> on an array of strings: \<open>undefined\<close> out of range.\<close>

definition index :: "string list \<Rightarrow> nat \<Rightarrow> jsval" where
  "index xs i = (if i < length xs then JStr (xs ! i) else JUndefined)"

subsection \<open>\<open>String.prototype.split\<close> with a string separator\<close>

text \<open>
  The scan of \<open>split\<close>: \<open>cur\<close> is the segment collected since the last match, the third
  argument is the text still to scan. A match of the separator at the scan position closes
  the segment and skips the separator; otherwise one character moves into the segment.
  The text left when the scan ends is the last segment.
\<close>

function split_loop :: "string \<Rightarrow> string \<Rightarrow> string \<Rightarrow> string list" where
  "split_loop sep cur [] = [cur]"
| "split_loop sep cur (c # cs) =
     (if sep \<noteq> [] \<and> prefix sep (c # cs)
      then cur # split_loop sep [] (drop (length sep) (c # cs))
      else split_loop sep (cur @ [c]) cs)"
  by pat_completeness auto
termination
  by (relation "measure (\<lambda>(sep, cur, rest). length rest)") auto

text \<open>An empty separator splits the string into its characters.\<close>

definition split :: "string \<Rightarrow> string \<Rightarrow> string list" where
  "split sep s = (if sep = [] then map (\<lambda>c. [c]) s else split_loop sep [] s)"

section \<open>The lint report\<close>

record lint_message =
  severity :: nat
  line :: nat
  message :: string
  ruleId :: jsval

text \<open>
  A file result and the whole report both carry \<open>errorCount\<close> and \<open>warningCount\<close>; the
  script reads them from either object.
\<close>

record counts =
  errorCount :: nat
  warningCount :: nat

record file_result = counts +
  filePath :: string
  messages :: "lint_message list"

record report = counts +
  results :: "file_result list"

section \<open>Effects: console output and the GitHub client\<close>

datatype style =
  Plain | Bold | Underline | Red | Yellow | Gray | RedBold | YellowBold | GreenBold

datatype logarg = Styled style jsval

record details =
  user :: jsval
  repo :: jsval
  sha :: jsval
  state :: string
  target_url :: string
  description :: string
  "context" :: string

text \<open>
  \<open>TypeError p\<close>: the property \<open>p\<close> was read on \<open>undefined\<close>. \<open>ApiError\<close> stands for
  an error of the GitHub client.
\<close>

datatype error = TypeError string | ApiError string

text \<open>
  What a run does, in order: console output, the two calls of the GitHub client, and the
  rejection of a promise that has no handler.
\<close>

datatype action =
    ConsoleLog "logarg list"
  | Authenticate string jsval
  | CreateStatus details
  | UnhandledRejection error

text \<open>
  The GitHub client is an external library. \<open>authenticate\<close> gives the error that
  \<open>github.authenticate\<close> throws on an authentication type and a token, if it throws;
  \<open>createStatus\<close> gives the error with which the promise returned by
  \<open>github.repos.createStatus\<close> is rejected, if the request fails.
\<close>

record client =
  authenticate :: "string \<Rightarrow> jsval \<Rightarrow> error option"
  createStatus :: "details \<Rightarrow> error option"

type_synonym env = "string \<rightharpoonup> string"

definition getenv :: "env \<Rightarrow> string \<Rightarrow> jsval" where
  "getenv e k = (case e k of None \<Rightarrow> JUndefined | Some s \<Rightarrow> JStr s)"

section \<open>Printing the report\<close>

text \<open>One line of \<open>printFileResult\<close>'s loop over the messages of a file.\<close>

definition printMessage :: "lint_message \<Rightarrow> action" where
  "printMessage m =
     (if severity m = 2
      then ConsoleLog [Styled Plain (JStr ''  ''), Styled Red (JStr ''error  ''),
             Styled Gray (JNum (line m)), Styled Plain (JStr (message m)),
             Styled Gray (ruleId m)]
      else ConsoleLog [Styled Plain (JStr ''  ''), Styled Yellow (JStr ''warning''),
             Styled Gray (JNum (line m)), Styled Plain (JStr (message m)),
             Styled Gray (ruleId m)])"

definition no_issues_line :: action where
  "no_issues_line = ConsoleLog [Styled Plain (JStr ''no issues'')]"

definition printFileResult :: "file_result \<Rightarrow> action list" where
  "printFileResult result =
     [ConsoleLog [Styled Underline (JStr (filePath result))]]
     @ (if length (messages result) = 0 then [no_issues_line]
        else map printMessage (messages result))
     @ [ConsoleLog []]"

definition printReportFooter :: "'a counts_scheme \<Rightarrow> action list" where
  "printReportFooter rep =
     (if errorCount rep \<noteq> 0
      then [ConsoleLog [Styled RedBold (JStr ''%d problems (%d errors, %d warnings)''),
              Styled Plain (JNum (errorCount rep + warningCount rep)),
              Styled Plain (JNum (errorCount rep)),
              Styled Plain (JNum (warningCount rep))]]
      else if warningCount rep \<noteq> 0
      then [ConsoleLog [Styled YellowBold (JStr ''%d warnings''),
              Styled Plain (JNum (warningCount rep))]]
      else [ConsoleLog [Styled GreenBold (JStr ''no lint issues!'')]])"

text \<open>The loop of \<open>printReport\<close> over \<open>report.results\<close>.\<close>

primrec printResults :: "file_result list \<Rightarrow> action list" where
  "printResults [] = []"
| "printResults (result # rest) =
     (if errorCount result \<noteq> 0 \<or> warningCount result \<noteq> 0
      then printFileResult result @ printResults rest
      else printResults rest)"

definition printReport :: "report \<Rightarrow> action list" where
  "printReport rep =
     [ConsoleLog [Styled Bold (JStr (''-- begin ESLint report --'' @ [CHR 0x0A]))]]
     @ printResults (results rep)
     @ printReportFooter rep"

text \<open>
  The lint engine computes the two counts of a file result from its messages: severity 2
  is an error, anything else a warning. The script itself reads the counts and the
  messages as independent fields.
\<close>

definition counts_match :: "file_result \<Rightarrow> bool" where
  "counts_match r =
     (errorCount r = length (filter (\<lambda>m. severity m = 2) (messages r)) \<and>
      warningCount r = length (filter (\<lambda>m. severity m \<noteq> 2) (messages r)))"

section \<open>Reporting the status\<close>

text \<open>
  A function of the script returns the actions it performed and either the error it threw
  (\<open>Inl\<close>) or its value (\<open>Inr\<close>). Calling a method on \<open>undefined\<close> throws a
  \<open>TypeError\<close>; the script has no handler, so an error ends every caller.
\<close>

definition getCommitTarget :: "env \<Rightarrow> jsval \<Rightarrow> action list \<times> (error + jsval)" where
  "getCommitTarget e eventType =
     (if eventType = JStr ''push'' then ([], Inr (getenv e ''TRAVIS_COMMIT''))
      else if eventType = JStr ''pull_request'' then
        (case getenv e ''TRAVIS_COMMIT_RANGE'' of
           JStr travisCommitRange \<Rightarrow>
             (let parsed = split ''...'' travisCommitRange in
              if length parsed = 1 then ([], Inr (JStr travisCommitRange))
              else ([], Inr (index parsed 1)))
         | _ \<Rightarrow> ([], Inl (TypeError ''split'')))
      else ([ConsoleLog [Styled Red (JStr (''event type '' @ [CHR 0x27] @ ''%s''
                           @ [CHR 0x27] @ '' not supported'')),
               Styled Plain eventType]],
            Inr JNull))"

text \<open>
  The script drops the promise of the status request (no callback, no handler): when the
  request fails, the rejection is unhandled.
\<close>

definition unhandled :: "error option \<Rightarrow> action list" where
  "unhandled outcome = (case outcome of Some err \<Rightarrow> [UnhandledRejection err] | None \<Rightarrow> [])"

text \<open>
  \<open>sendToGitHub\<close> authenticates first; an error thrown there ends the function before
  the status request.
\<close>

definition sendToGitHub :: "client \<Rightarrow> env \<Rightarrow> details \<Rightarrow> action list \<times> (error + unit)" where
  "sendToGitHub github e d =
     (let token = getenv e ''TRAVIS_GITHUB_LINT_STATUS_TOKEN'' in
      case authenticate github ''oauth'' token of
        Some err \<Rightarrow> ([Authenticate ''oauth'' token], Inl err)
      | None \<Rightarrow>
          ([Authenticate ''oauth'' token, CreateStatus d] @ unhandled (createStatus github d),
           Inr ()))"

definition not_posting_line :: action where
  "not_posting_line = ConsoleLog [Styled Red (JStr ''not POSTing to GitHub'')]"

definition updateStatus ::
    "client \<Rightarrow> env \<Rightarrow> 'a counts_scheme \<Rightarrow> action list \<times> (error + unit)" where
  "updateStatus api e rep =
     (let travisSlug = getenv e ''TRAVIS_REPO_SLUG'';
          travisJob = getenv e ''TRAVIS_JOB_ID'';
          travisEvent = getenv e ''TRAVIS_EVENT_TYPE''
      in case getCommitTarget e travisEvent of
           (t, Inl err) \<Rightarrow> (t, Inl err)
         | (t, Inr sha_v) \<Rightarrow>
             if \<not> truthy sha_v then (t @ [not_posting_line], Inr ())
             else (case travisSlug of
                     JStr slug \<Rightarrow>
                       (let parsedSlug = split ''/'' slug;
                            d = \<lparr> user = index parsedSlug 0,
                                  repo = index parsedSlug 1,
                                  sha = sha_v,
                                  state = (if errorCount rep = 0 then ''success''
                                           else ''failure''),
                                  target_url = ''https://travis-ci.org/'' @ slug
                                               @ ''/jobs/'' @ to_string travisJob,
                                  description = ''errors: '' @ string_of_nat (errorCount rep)
                                               @ '', warnings: ''
                                               @ string_of_nat (warningCount rep),
                                  context = ''ci/lint/''
                                            @ (if travisEvent = JStr ''pull_request''
                                               then ''pr'' else to_string travisEvent) \<rparr>
                        in case sendToGitHub api e d of (t', r) \<Rightarrow> (t @ t', r))
                   | _ \<Rightarrow> (t, Inl (TypeError ''split''))))"

text \<open>The payloads of the status-creation requests among a sequence of actions.\<close>

fun status_requests :: "action list \<Rightarrow> details list" where
  "status_requests [] = []"
| "status_requests (CreateStatus d # as) = d # status_requests as"
| "status_requests (a # as) = status_requests as"

text \<open>
  The script: the report of the lint run (an external tool) is printed, then the status
  is sent.
\<close>

definition main :: "client \<Rightarrow> env \<Rightarrow> report \<Rightarrow> action list \<times> (error + unit)" where
  "main api e rep =
     (case updateStatus api e rep of (t, r) \<Rightarrow> (printReport rep @ t, r))"

section \<open>The server bootstrap\<close>

text \<open>
  The bootstrap configures an application object and hands it to two startup functions of
  other modules. The model keeps the application's middleware stack and the sequence of
  operations performed; \<open>'c\<close> is the type of \<open>config.serverInfo\<close>.
\<close>

datatype middleware =
    Static "string list"
  | BodyJson string
  | BodyUrlencoded string bool

datatype 'c operation =
    Use middleware
  | HttpsRun "middleware list" 'c
  | RunForHttps 'c

record 'c server =
  app :: "middleware list"
  performed :: "'c operation list"

definition app_use :: "middleware \<Rightarrow> 'c server \<Rightarrow> 'c server" where
  "app_use mw s = s\<lparr> app := app s @ [mw], performed := performed s @ [Use mw] \<rparr>"

definition httpsServer_run :: "'c \<Rightarrow> 'c server \<Rightarrow> 'c server" where
  "httpsServer_run cfg s = s\<lparr> performed := performed s @ [HttpsRun (app s) cfg] \<rparr>"

definition redirectServer_runForHttps :: "'c \<Rightarrow> 'c server \<Rightarrow> 'c server" where
  "redirectServer_runForHttps cfg s = s\<lparr> performed := performed s @ [RunForHttps cfg] \<rparr>"

definition bootstrap :: "string \<Rightarrow> 'c \<Rightarrow> 'c server" where
  "bootstrap dirname serverInfo =
     (let s0 = \<lparr> app = [], performed = [] \<rparr>;
          s1 = app_use (Static [dirname, ''../client'']) s0;
          s2 = app_use (BodyJson ''10mb'') s1;
          s3 = app_use (BodyUrlencoded ''10mb'' True) s2;
          s4 = httpsServer_run serverInfo s3
      in redirectServer_runForHttps serverInfo s4)"

section \<open>Properties of \<open>split\<close>\<close>

lemma split_loop_no_match:
  "sep \<noteq> [] \<Longrightarrow> \<not> sublist sep rest \<Longrightarrow> split_loop sep cur rest = [cur @ rest]"
proof (induction rest arbitrary: cur)
  case Nil
  then show ?case by simp
next
  case (Cons c cs)
  from Cons.prems(2) have np: "\<not> prefix sep (c # cs)" and ns: "\<not> sublist sep cs"
    by (simp_all add: sublist_Cons_right)
  from Cons.IH [OF Cons.prems(1) ns, of "cur @ [c]"] np show ?case by simp
qed

lemma prefix_within:
  assumes "prefix s (xs @ ys)" and "length s \<le> length xs"
  shows "prefix s xs"
  using assms by (auto simp: prefix_append)

lemma split_loop_at_match:
  "sep \<noteq> [] \<Longrightarrow> split_loop sep cur (sep @ b) = cur # split_loop sep [] b"
  by (cases sep) simp_all

text \<open>
  When the first occurrence of the separator in \<open>a @ sep @ b\<close> starts right after \<open>a\<close>
  (no occurrence starts inside \<open>a\<close>), the scan closes the segment \<open>a\<close> there and goes on
  with \<open>b\<close>.
\<close>

lemma split_loop_first_match:
  "sep \<noteq> [] \<Longrightarrow> \<not> sublist sep (a @ butlast sep) \<Longrightarrow>
     split_loop sep cur (a @ sep @ b) = (cur @ a) # split_loop sep [] b"
proof (induction a arbitrary: cur)
  case Nil
  then show ?case by (simp add: split_loop_at_match)
next
  case (Cons x a)
  from Cons.prems(2) have nb: "\<not> prefix sep (x # a @ butlast sep)"
    and ns: "\<not> sublist sep (a @ butlast sep)"
    by (simp_all add: sublist_Cons_right)
  have split_up: "x # a @ sep @ b = (x # a @ butlast sep) @ (last sep # b)"
    using Cons.prems(1) by simp
  have len: "length sep \<le> length (x # a @ butlast sep)"
    by simp
  have np: "\<not> prefix sep (x # a @ sep @ b)"
  proof
    assume "prefix sep (x # a @ sep @ b)"
    then have "prefix sep ((x # a @ butlast sep) @ (last sep # b))"
      by (simp only: split_up)
    from prefix_within [OF this len] nb show False by simp
  qed
  from Cons.IH [OF Cons.prems(1) ns, of "cur @ [x]"] np show ?case by simp
qed

lemma split_absent:
  "sep \<noteq> [] \<Longrightarrow> \<not> sublist sep s \<Longrightarrow> split sep s = [s]"
  by (simp add: split_def split_loop_no_match)

lemma split_once:
  "sep \<noteq> [] \<Longrightarrow> \<not> sublist sep (a @ butlast sep) \<Longrightarrow> \<not> sublist sep b \<Longrightarrow>
     split sep (a @ sep @ b) = [a, b]"
  by (simp add: split_def split_loop_first_match split_loop_no_match)

lemma split_twice:
  "sep \<noteq> [] \<Longrightarrow> \<not> sublist sep (a @ butlast sep) \<Longrightarrow>
     \<not> sublist sep (b @ butlast sep) \<Longrightarrow>
     split sep (a @ sep @ b @ sep @ c) = a # b # split_loop sep [] c"
  by (simp add: split_def split_loop_first_match)

lemma not_sublist_single: "\<not> sublist [c] s \<longleftrightarrow> c \<notin> set s"
  by (induction s) (simp_all add: sublist_Cons_right)

section \<open>The commit hash of a pull request\<close>

text \<open>
  C1, as stated: for a pull-request event the hash returned by \<open>getCommitTarget\<close> is the
  substring of the commit range after the \<open>...\<close> delimiter. On the range \<open>a...b...c\<close> the
  function returns \<open>b\<close>, which is neither the text after the first delimiter (\<open>b...c\<close>)
  nor the text after the last one (\<open>c\<close>).
\<close>

theorem pull_request_hash_counterexample:
  "getCommitTarget [''TRAVIS_COMMIT_RANGE'' \<mapsto> ''a...b...c''] (JStr ''pull_request'')
     = ([], Inr (JStr ''b''))
   \<and> ''a...b...c'' = ''a'' @ ''...'' @ ''b...c'' \<and> JStr ''b'' \<noteq> JStr ''b...c''
   \<and> ''a...b...c'' = ''a...b'' @ ''...'' @ ''c'' \<and> JStr ''b'' \<noteq> JStr ''c''"
  by (simp add: getCommitTarget_def getenv_def split_def index_def)

text \<open>
  C1, amended: for a pull-request event whose commit range is set, \<open>getCommitTarget\<close>
  returns the second segment of the range split on \<open>...\<close>. That is the whole range when
  the delimiter is absent, the substring after the delimiter when no further delimiter
  follows the first one, and the text between the first and the second delimiter when
  there is a second one. (The first delimiter starts after \<open>a\<close> when \<open>...\<close> does not occur
  in \<open>a\<close> followed by two dots.)
\<close>

theorem pull_request_hash:
  assumes "e ''TRAVIS_COMMIT_RANGE'' = Some r"
  shows "(\<not> sublist ''...'' r \<longrightarrow>
            getCommitTarget e (JStr ''pull_request'') = ([], Inr (JStr r)))
       \<and> (r = a @ ''...'' @ b \<and> \<not> sublist ''...'' (a @ ''..'') \<and> \<not> sublist ''...'' b \<longrightarrow>
            getCommitTarget e (JStr ''pull_request'') = ([], Inr (JStr b)))
       \<and> (r = p @ ''...'' @ q @ ''...'' @ s \<and> \<not> sublist ''...'' (p @ ''..'')
            \<and> \<not> sublist ''...'' (q @ ''..'') \<longrightarrow>
            getCommitTarget e (JStr ''pull_request'') = ([], Inr (JStr q)))"
proof (intro conjI impI)
  assume "\<not> sublist ''...'' r"
  then have "split ''...'' r = [r]"
    by (simp add: split_absent)
  with assms show "getCommitTarget e (JStr ''pull_request'') = ([], Inr (JStr r))"
    by (simp add: getCommitTarget_def getenv_def)
next
  assume h: "r = a @ ''...'' @ b \<and> \<not> sublist ''...'' (a @ ''..'') \<and> \<not> sublist ''...'' b"
  then have "split ''...'' r = [a, b]"
    using split_once [of "''...''" a b] by simp
  with assms show "getCommitTarget e (JStr ''pull_request'') = ([], Inr (JStr b))"
    by (simp add: getCommitTarget_def getenv_def index_def)
next
  assume h: "r = p @ ''...'' @ q @ ''...'' @ s \<and> \<not> sublist ''...'' (p @ ''..'')
            \<and> \<not> sublist ''...'' (q @ ''..'')"
  then have "split ''...'' r = p # q # split_loop ''...'' [] s"
    using split_twice [of "''...''" p q s] by simp
  with assms show "getCommitTarget e (JStr ''pull_request'') = ([], Inr (JStr q))"
    by (simp add: getCommitTarget_def getenv_def index_def)
qed

theorem pull_request_hash_witness:
  "getCommitTarget [''TRAVIS_COMMIT_RANGE'' \<mapsto> ''abc12''] (JStr ''pull_request'')
     = ([], Inr (JStr ''abc12''))
   \<and> getCommitTarget [''TRAVIS_COMMIT_RANGE'' \<mapsto> ''a1...b2''] (JStr ''pull_request'')
     = ([], Inr (JStr ''b2''))
   \<and> getCommitTarget [''TRAVIS_COMMIT_RANGE'' \<mapsto> ''a...b...c''] (JStr ''pull_request'')
     = ([], Inr (JStr ''b''))"
proof -
  have absent: "\<not> sublist ''...'' ''abc12''"
    by (simp add: sublist_Cons_right)
  have once: "''a1...b2'' = ''a1'' @ ''...'' @ ''b2'' \<and> \<not> sublist ''...'' (''a1'' @ ''..'')
      \<and> \<not> sublist ''...'' ''b2''"
    by (simp add: sublist_Cons_right)
  have twice: "''a...b...c'' = ''a'' @ ''...'' @ ''b'' @ ''...'' @ ''c''
      \<and> \<not> sublist ''...'' (''a'' @ ''..'') \<and> \<not> sublist ''...'' (''b'' @ ''..'')"
    by (simp add: sublist_Cons_right)
  have e1: "[''TRAVIS_COMMIT_RANGE'' \<mapsto> ''abc12''] ''TRAVIS_COMMIT_RANGE'' = Some ''abc12''"
    by simp
  have e2: "[''TRAVIS_COMMIT_RANGE'' \<mapsto> ''a1...b2''] ''TRAVIS_COMMIT_RANGE'' = Some ''a1...b2''"
    by simp
  have e3: "[''TRAVIS_COMMIT_RANGE'' \<mapsto> ''a...b...c''] ''TRAVIS_COMMIT_RANGE''
      = Some ''a...b...c''"
    by simp
  from pull_request_hash [of "[''TRAVIS_COMMIT_RANGE'' \<mapsto> ''abc12'']" "''abc12''", OF e1]
    absent
  have r1: "getCommitTarget [''TRAVIS_COMMIT_RANGE'' \<mapsto> ''abc12''] (JStr ''pull_request'')
     = ([], Inr (JStr ''abc12''))"
    by blast
  from pull_request_hash [of "[''TRAVIS_COMMIT_RANGE'' \<mapsto> ''a1...b2'']" "''a1...b2''"
      "''a1''" "''b2''", OF e2] once
  have r2: "getCommitTarget [''TRAVIS_COMMIT_RANGE'' \<mapsto> ''a1...b2''] (JStr ''pull_request'')
     = ([], Inr (JStr ''b2''))"
    by blast
  from pull_request_hash [of "[''TRAVIS_COMMIT_RANGE'' \<mapsto> ''a...b...c'']" "''a...b...c''"
      _ _ "''a''" "''b''" "''c''", OF e3] twice
  have r3: "getCommitTarget [''TRAVIS_COMMIT_RANGE'' \<mapsto> ''a...b...c''] (JStr ''pull_request'')
     = ([], Inr (JStr ''b''))"
    by blast
  from r1 r2 r3 show ?thesis by blast
qed

section \<open>What \<open>updateStatus\<close> does\<close>

lemma unhandled_no_request: "CreateStatus d \<notin> set (unhandled x)"
  by (simp add: unhandled_def split: option.splits)

lemma status_requests_unhandled: "status_requests (unhandled x) = []"
  by (simp add: unhandled_def split: option.splits)

text \<open>When \<open>getCommitTarget\<close> returns a truthy hash, it has logged nothing.\<close>

lemma getCommitTarget_truthy_silent:
  "getCommitTarget e ev = (t, Inr s) \<Longrightarrow> truthy s \<Longrightarrow> t = []"
  by (auto simp: getCommitTarget_def Let_def split: if_splits jsval.splits)

text \<open>
  The status is sent exactly when \<open>getCommitTarget\<close> returns a truthy hash, the
  repository slug is set and the client accepts the authentication; the actions are then
  the authentication and one request.
\<close>

lemma updateStatus_sends:
  assumes "getCommitTarget e (getenv e ''TRAVIS_EVENT_TYPE'') = (t, Inr s)"
    and "truthy s" and "e ''TRAVIS_REPO_SLUG'' = Some slug"
    and "authenticate api ''oauth'' (getenv e ''TRAVIS_GITHUB_LINT_STATUS_TOKEN'') = None"
  shows "updateStatus api e rep =
    (let d = \<lparr> user = index (split ''/'' slug) 0,
                repo = index (split ''/'' slug) 1,
                sha = s,
                state = (if errorCount rep = 0 then ''success'' else ''failure''),
                target_url = ''https://travis-ci.org/'' @ slug @ ''/jobs/''
                             @ to_string (getenv e ''TRAVIS_JOB_ID''),
                description = ''errors: '' @ string_of_nat (errorCount rep)
                             @ '', warnings: '' @ string_of_nat (warningCount rep),
                context = ''ci/lint/''
                          @ (if getenv e ''TRAVIS_EVENT_TYPE'' = JStr ''pull_request''
                             then ''pr'' else to_string (getenv e ''TRAVIS_EVENT_TYPE'')) \<rparr>
     in ([Authenticate ''oauth'' (getenv e ''TRAVIS_GITHUB_LINT_STATUS_TOKEN''),
          CreateStatus d] @ unhandled (createStatus api d), Inr ()))"
  using assms getCommitTarget_truthy_silent [OF assms(1,2)]
  by (simp add: updateStatus_def sendToGitHub_def Let_def getenv_def)

lemma updateStatus_rejected:
  assumes "getCommitTarget e (getenv e ''TRAVIS_EVENT_TYPE'') = (t, Inr s)"
    and "truthy s" and "e ''TRAVIS_REPO_SLUG'' = Some slug"
    and "authenticate api ''oauth'' (getenv e ''TRAVIS_GITHUB_LINT_STATUS_TOKEN'') = Some err"
  shows "updateStatus api e rep =
    ([Authenticate ''oauth'' (getenv e ''TRAVIS_GITHUB_LINT_STATUS_TOKEN'')], Inl err)"
  using assms getCommitTarget_truthy_silent [OF assms(1,2)]
  by (simp add: updateStatus_def sendToGitHub_def Let_def getenv_def)

lemma updateStatus_request_sent:
  assumes "CreateStatus d \<in> set (fst (updateStatus api e rep))"
  shows "\<exists>s slug. getCommitTarget e (getenv e ''TRAVIS_EVENT_TYPE'') = ([], Inr s)
           \<and> truthy s \<and> e ''TRAVIS_REPO_SLUG'' = Some slug
           \<and> authenticate api ''oauth'' (getenv e ''TRAVIS_GITHUB_LINT_STATUS_TOKEN'') = None"
proof -
  obtain t r where g: "getCommitTarget e (getenv e ''TRAVIS_EVENT_TYPE'') = (t, r)"
    by (cases "getCommitTarget e (getenv e ''TRAVIS_EVENT_TYPE'')")
  have logs: "CreateStatus d \<notin> set t"
    using g by (auto simp: getCommitTarget_def Let_def split: if_splits jsval.splits)
  show ?thesis
  proof (cases r)
    case (Inl err)
    with assms g logs show ?thesis
      by (simp add: updateStatus_def Let_def)
  next
    case (Inr s)
    show ?thesis
    proof (cases "truthy s")
      case False
      with assms g logs Inr show ?thesis
        by (simp add: updateStatus_def Let_def not_posting_line_def)
    next
      case True
      with g Inr have t: "t = []"
        by (simp add: getCommitTarget_truthy_silent)
      show ?thesis
      proof (cases "e ''TRAVIS_REPO_SLUG''")
        case None
        with assms g Inr True t show ?thesis
          by (simp add: updateStatus_def Let_def getenv_def)
      next
        case (Some slug)
        from g Inr t have g': "getCommitTarget e (getenv e ''TRAVIS_EVENT_TYPE'') = ([], Inr s)"
          by simp
        show ?thesis
        proof (cases "authenticate api ''oauth'' (getenv e ''TRAVIS_GITHUB_LINT_STATUS_TOKEN'')")
          case None
          with g' True Some show ?thesis by simp
        next
          case (Some err)
          from assms show ?thesis
            by (simp add: updateStatus_rejected [OF g' True \<open>e ''TRAVIS_REPO_SLUG'' = Some slug\<close> Some])
        qed
      qed
    qed
  qed
qed

text \<open>The requests of a run that sends the status: the one payload built by \<open>updateStatus\<close>.\<close>

lemma updateStatus_requests:
  assumes "getCommitTarget e (getenv e ''TRAVIS_EVENT_TYPE'') = (t, Inr s)"
    and "truthy s" and "e ''TRAVIS_REPO_SLUG'' = Some slug"
    and "authenticate api ''oauth'' (getenv e ''TRAVIS_GITHUB_LINT_STATUS_TOKEN'') = None"
  shows "status_requests (fst (updateStatus api e rep)) = [\<lparr> user = index (split ''/'' slug) 0,
                repo = index (split ''/'' slug) 1,
                sha = s,
                state = (if errorCount rep = 0 then ''success'' else ''failure''),
                target_url = ''https://travis-ci.org/'' @ slug @ ''/jobs/''
                             @ to_string (getenv e ''TRAVIS_JOB_ID''),
                description = ''errors: '' @ string_of_nat (errorCount rep)
                             @ '', warnings: '' @ string_of_nat (warningCount rep),
                context = ''ci/lint/''
                          @ (if getenv e ''TRAVIS_EVENT_TYPE'' = JStr ''pull_request''
                             then ''pr'' else to_string (getenv e ''TRAVIS_EVENT_TYPE'')) \<rparr>]"
    and "CreateStatus d \<in> set (fst (updateStatus api e rep)) \<Longrightarrow> d = \<lparr> user = index (split ''/'' slug) 0,
                repo = index (split ''/'' slug) 1,
                sha = s,
                state = (if errorCount rep = 0 then ''success'' else ''failure''),
                target_url = ''https://travis-ci.org/'' @ slug @ ''/jobs/''
                             @ to_string (getenv e ''TRAVIS_JOB_ID''),
                description = ''errors: '' @ string_of_nat (errorCount rep)
                             @ '', warnings: '' @ string_of_nat (warningCount rep),
                context = ''ci/lint/''
                          @ (if getenv e ''TRAVIS_EVENT_TYPE'' = JStr ''pull_request''
                             then ''pr'' else to_string (getenv e ''TRAVIS_EVENT_TYPE'')) \<rparr>"
  using unhandled_no_request
  by (auto simp: updateStatus_sends [OF assms] Let_def unhandled_def split: option.splits)

section \<open>The state of the status\<close>

text \<open>
  C2: whenever \<open>updateStatus\<close> sends a status, the state of its payload is \<open>success\<close>
  exactly when the report's error count is zero and \<open>failure\<close> otherwise; the same
  report with any other warning count \<open>w\<close> is sent with the same state.
\<close>

theorem status_state:
  assumes "CreateStatus d \<in> set (fst (updateStatus api e rep))"
  shows "(state d = ''success'' \<longleftrightarrow> errorCount rep = 0)
       \<and> (state d = ''failure'' \<longleftrightarrow> errorCount rep \<noteq> 0)
       \<and> (\<exists>d'. status_requests (fst (updateStatus api e (rep\<lparr>warningCount := w\<rparr>))) = [d']
              \<and> state d' = state d)"
proof -
  from updateStatus_request_sent [OF assms] obtain s slug where
    h: "getCommitTarget e (getenv e ''TRAVIS_EVENT_TYPE'') = ([], Inr s)" "truthy s"
       "e ''TRAVIS_REPO_SLUG'' = Some slug"
       "authenticate api ''oauth'' (getenv e ''TRAVIS_GITHUB_LINT_STATUS_TOKEN'') = None"
    by blast
  from updateStatus_requests(2) [OF h assms] show ?thesis
    by (simp add: updateStatus_requests(1) [OF h])
qed

theorem status_state_witness:
  "CreateStatus \<lparr> user = JStr ''o'', repo = JStr ''r'', sha = JStr ''abc'', state = ''failure'',
      target_url = ''https://travis-ci.org/o/r/jobs/7'',
      description = ''errors: 2, warnings: 3'', context = ''ci/lint/push'' \<rparr>
    \<in> set (fst (updateStatus
         \<lparr> authenticate = (\<lambda>ty tok. if truthy tok then None else Some (ApiError ''token'')),
           createStatus = (\<lambda>d. None) \<rparr>
         [''TRAVIS_EVENT_TYPE'' \<mapsto> ''push'', ''TRAVIS_COMMIT'' \<mapsto> ''abc'', ''TRAVIS_REPO_SLUG'' \<mapsto> ''o/r'', ''TRAVIS_JOB_ID'' \<mapsto> ''7'', ''TRAVIS_GITHUB_LINT_STATUS_TOKEN'' \<mapsto> ''tok'']
         \<lparr> errorCount = 2, warningCount = 3 \<rparr>))
   \<and> errorCount \<lparr> errorCount = 2, warningCount = 3 \<rparr> \<noteq> 0
   \<and> (\<exists>d'. status_requests (fst (updateStatus
         \<lparr> authenticate = (\<lambda>ty tok. if truthy tok then None else Some (ApiError ''token'')),
           createStatus = (\<lambda>d. None) \<rparr>
         [''TRAVIS_EVENT_TYPE'' \<mapsto> ''push'', ''TRAVIS_COMMIT'' \<mapsto> ''abc'', ''TRAVIS_REPO_SLUG'' \<mapsto> ''o/r'', ''TRAVIS_JOB_ID'' \<mapsto> ''7'', ''TRAVIS_GITHUB_LINT_STATUS_TOKEN'' \<mapsto> ''tok'']
         (\<lparr> errorCount = 2, warningCount = 3 \<rparr>\<lparr>warningCount := 0\<rparr>))) = [d']
        \<and> state d' = ''failure'')"
proof -
  have sent: "CreateStatus \<lparr> user = JStr ''o'', repo = JStr ''r'', sha = JStr ''abc'', state = ''failure'',
      target_url = ''https://travis-ci.org/o/r/jobs/7'',
      description = ''errors: 2, warnings: 3'', context = ''ci/lint/push'' \<rparr>
    \<in> set (fst (updateStatus
         \<lparr> authenticate = (\<lambda>ty tok. if truthy tok then None else Some (ApiError ''token'')),
           createStatus = (\<lambda>d. None) \<rparr>
         [''TRAVIS_EVENT_TYPE'' \<mapsto> ''push'', ''TRAVIS_COMMIT'' \<mapsto> ''abc'', ''TRAVIS_REPO_SLUG'' \<mapsto> ''o/r'', ''TRAVIS_JOB_ID'' \<mapsto> ''7'', ''TRAVIS_GITHUB_LINT_STATUS_TOKEN'' \<mapsto> ''tok'']
         \<lparr> errorCount = 2, warningCount = 3 \<rparr>))"
    by (simp add: updateStatus_def getCommitTarget_def sendToGitHub_def unhandled_def getenv_def
        split_def index_def string_of_nat.simps digit_char_def)
  from status_state [OF sent, of 0] sent show ?thesis by simp
qed

section \<open>Unsupported events\<close>

text \<open>
  C3: for an event type other than \<open>push\<close> and \<open>pull_request\<close> (also when the variable is
  not set), \<open>updateStatus\<close> logs two messages and does nothing else: it neither
  authenticates nor creates a status.
\<close>

theorem unsupported_event_only_logs:
  assumes "e ''TRAVIS_EVENT_TYPE'' \<noteq> Some ''push''"
    and "e ''TRAVIS_EVENT_TYPE'' \<noteq> Some ''pull_request''"
  shows "updateStatus api e rep =
           ([ConsoleLog [Styled Red (JStr (''event type '' @ [CHR 0x27] @ ''%s''
                           @ [CHR 0x27] @ '' not supported'')),
                         Styled Plain (getenv e ''TRAVIS_EVENT_TYPE'')],
             not_posting_line], Inr ())
       \<and> status_requests (fst (updateStatus api e rep)) = []
       \<and> (\<forall>k v. Authenticate k v \<notin> set (fst (updateStatus api e rep)))"
  using assms
  by (auto simp: updateStatus_def getCommitTarget_def getenv_def not_posting_line_def
      split: option.splits)

theorem unsupported_event_only_logs_witness:
  "[''TRAVIS_EVENT_TYPE'' \<mapsto> ''cron'', ''TRAVIS_REPO_SLUG'' \<mapsto> ''o/r'', ''TRAVIS_GITHUB_LINT_STATUS_TOKEN'' \<mapsto> ''tok'']
      ''TRAVIS_EVENT_TYPE'' \<noteq> Some ''push''
   \<and> updateStatus
        \<lparr> authenticate = (\<lambda>ty tok. if truthy tok then None else Some (ApiError ''token'')),
           createStatus = (\<lambda>d. None) \<rparr>
        [''TRAVIS_EVENT_TYPE'' \<mapsto> ''cron'', ''TRAVIS_REPO_SLUG'' \<mapsto> ''o/r'', ''TRAVIS_GITHUB_LINT_STATUS_TOKEN'' \<mapsto> ''tok'']
        \<lparr> errorCount = 0, warningCount = 0 \<rparr> =
        ([ConsoleLog [Styled Red (JStr (''event type '' @ [CHR 0x27] @ ''%s''
                           @ [CHR 0x27] @ '' not supported'')),
                      Styled Plain (JStr ''cron'')],
          not_posting_line], Inr ())
   \<and> status_requests (fst (updateStatus
        \<lparr> authenticate = (\<lambda>ty tok. if truthy tok then None else Some (ApiError ''token'')),
           createStatus = (\<lambda>d. None) \<rparr>
        [''TRAVIS_EVENT_TYPE'' \<mapsto> ''cron'', ''TRAVIS_REPO_SLUG'' \<mapsto> ''o/r'', ''TRAVIS_GITHUB_LINT_STATUS_TOKEN'' \<mapsto> ''tok'']
        \<lparr> errorCount = 0, warningCount = 0 \<rparr>)) = []"
proof -
  let ?E = "[''TRAVIS_EVENT_TYPE'' \<mapsto> ''cron'', ''TRAVIS_REPO_SLUG'' \<mapsto> ''o/r'', ''TRAVIS_GITHUB_LINT_STATUS_TOKEN'' \<mapsto> ''tok'']"
  let ?C = "\<lparr> authenticate = (\<lambda>ty tok. if truthy tok then None else Some (ApiError ''token'')),
           createStatus = (\<lambda>d. None) \<rparr>"
  have a: "?E ''TRAVIS_EVENT_TYPE'' \<noteq> Some ''push''"
    by simp
  have b: "?E ''TRAVIS_EVENT_TYPE'' \<noteq> Some ''pull_request''"
    by simp
  have ev: "getenv ?E ''TRAVIS_EVENT_TYPE'' = JStr ''cron''"
    by (simp add: getenv_def)
  from unsupported_event_only_logs
      [where e = ?E and api = ?C and rep = "\<lparr> errorCount = 0, warningCount = 0 \<rparr>", OF a b]
    a ev show ?thesis by (simp add: not_posting_line_def)
qed

section \<open>The commit hash of a push\<close>

text \<open>
  C4: for a push event \<open>getCommitTarget\<close> returns the value of \<open>TRAVIS_COMMIT\<close> as it is,
  and the hash in the payload of any status that \<open>updateStatus\<close> sends is that value.
\<close>

theorem push_hash:
  assumes "e ''TRAVIS_EVENT_TYPE'' = Some ''push''"
  shows "getCommitTarget e (getenv e ''TRAVIS_EVENT_TYPE'')
           = ([], Inr (getenv e ''TRAVIS_COMMIT''))
       \<and> (CreateStatus d \<in> set (fst (updateStatus api e rep)) \<longrightarrow>
            (\<exists>c. e ''TRAVIS_COMMIT'' = Some c \<and> sha d = JStr c))"
proof (intro conjI impI)
  from assms show g: "getCommitTarget e (getenv e ''TRAVIS_EVENT_TYPE'')
           = ([], Inr (getenv e ''TRAVIS_COMMIT''))"
    by (simp add: getCommitTarget_def getenv_def)
  assume sent: "CreateStatus d \<in> set (fst (updateStatus api e rep))"
  from updateStatus_request_sent [OF sent] g obtain slug where
    h: "truthy (getenv e ''TRAVIS_COMMIT'')" "e ''TRAVIS_REPO_SLUG'' = Some slug"
       "authenticate api ''oauth'' (getenv e ''TRAVIS_GITHUB_LINT_STATUS_TOKEN'') = None"
    by auto
  from updateStatus_requests(2) [OF g h sent] have "sha d = getenv e ''TRAVIS_COMMIT''"
    by simp
  with h(1) show "\<exists>c. e ''TRAVIS_COMMIT'' = Some c \<and> sha d = JStr c"
    by (cases "e ''TRAVIS_COMMIT''") (simp_all add: getenv_def)
qed

theorem push_hash_witness:
  "CreateStatus \<lparr> user = JStr ''o'', repo = JStr ''r'', sha = JStr ''abc'', state = ''success'',
      target_url = ''https://travis-ci.org/o/r/jobs/7'',
      description = ''errors: 0, warnings: 3'', context = ''ci/lint/push'' \<rparr>
    \<in> set (fst (updateStatus
         \<lparr> authenticate = (\<lambda>ty tok. if truthy tok then None else Some (ApiError ''token'')),
           createStatus = (\<lambda>d. None) \<rparr>
         [''TRAVIS_EVENT_TYPE'' \<mapsto> ''push'', ''TRAVIS_COMMIT'' \<mapsto> ''abc'', ''TRAVIS_REPO_SLUG'' \<mapsto> ''o/r'', ''TRAVIS_JOB_ID'' \<mapsto> ''7'', ''TRAVIS_GITHUB_LINT_STATUS_TOKEN'' \<mapsto> ''tok'']
         \<lparr> errorCount = 0, warningCount = 3 \<rparr>))
   \<and> getCommitTarget
         [''TRAVIS_EVENT_TYPE'' \<mapsto> ''push'', ''TRAVIS_COMMIT'' \<mapsto> ''abc'', ''TRAVIS_REPO_SLUG'' \<mapsto> ''o/r'', ''TRAVIS_JOB_ID'' \<mapsto> ''7'', ''TRAVIS_GITHUB_LINT_STATUS_TOKEN'' \<mapsto> ''tok'']
         (JStr ''push'') = ([], Inr (JStr ''abc''))"
proof -
  let ?E = "[''TRAVIS_EVENT_TYPE'' \<mapsto> ''push'', ''TRAVIS_COMMIT'' \<mapsto> ''abc'', ''TRAVIS_REPO_SLUG'' \<mapsto> ''o/r'', ''TRAVIS_JOB_ID'' \<mapsto> ''7'', ''TRAVIS_GITHUB_LINT_STATUS_TOKEN'' \<mapsto> ''tok'']"
  let ?C = "\<lparr> authenticate = (\<lambda>ty tok. if truthy tok then None else Some (ApiError ''token'')),
           createStatus = (\<lambda>d. None) \<rparr>"
  have ev: "?E ''TRAVIS_EVENT_TYPE'' = Some ''push''"
    by simp
  have sent: "CreateStatus \<lparr> user = JStr ''o'', repo = JStr ''r'', sha = JStr ''abc'', state = ''success'',
      target_url = ''https://travis-ci.org/o/r/jobs/7'',
      description = ''errors: 0, warnings: 3'', context = ''ci/lint/push'' \<rparr>
    \<in> set (fst (updateStatus ?C ?E \<lparr> errorCount = 0, warningCount = 3 \<rparr>))"
    by (simp add: updateStatus_def getCommitTarget_def sendToGitHub_def unhandled_def getenv_def
        split_def index_def string_of_nat.simps digit_char_def)
  from push_hash
      [where e = ?E and api = ?C and rep = "\<lparr> errorCount = 0, warningCount = 3 \<rparr>"
        and d = "\<lparr> user = JStr ''o'', repo = JStr ''r'', sha = JStr ''abc'', state = ''success'',
      target_url = ''https://travis-ci.org/o/r/jobs/7'',
      description = ''errors: 0, warnings: 3'', context = ''ci/lint/push'' \<rparr>", OF ev]
    sent show ?thesis by (simp add: getenv_def)
qed

section \<open>The context label\<close>

text \<open>
  C10: whenever \<open>updateStatus\<close> sends a status, the context of its payload is
  \<open>ci/lint/pr\<close> for a pull-request event and \<open>ci/lint/\<close> followed by the event type for any
  other event type, so \<open>ci/lint/push\<close> for a push.
\<close>

theorem status_context:
  assumes "CreateStatus d \<in> set (fst (updateStatus api e rep))"
  shows "(e ''TRAVIS_EVENT_TYPE'' = Some ''pull_request'' \<longrightarrow> context d = ''ci/lint/pr'')
       \<and> (e ''TRAVIS_EVENT_TYPE'' = Some ev \<and> ev \<noteq> ''pull_request'' \<longrightarrow>
            context d = ''ci/lint/'' @ ev)
       \<and> (e ''TRAVIS_EVENT_TYPE'' = Some ''push'' \<longrightarrow> context d = ''ci/lint/push'')"
proof -
  from updateStatus_request_sent [OF assms] obtain s slug where
    h: "getCommitTarget e (getenv e ''TRAVIS_EVENT_TYPE'') = ([], Inr s)" "truthy s"
       "e ''TRAVIS_REPO_SLUG'' = Some slug"
       "authenticate api ''oauth'' (getenv e ''TRAVIS_GITHUB_LINT_STATUS_TOKEN'') = None"
    by blast
  from updateStatus_requests(2) [OF h assms] show ?thesis
    by (auto simp: getenv_def)
qed

theorem status_context_witness:
  "CreateStatus \<lparr> user = JStr ''o'', repo = JStr ''r'', sha = JStr ''def'', state = ''success'',
      target_url = ''https://travis-ci.org/o/r/jobs/7'',
      description = ''errors: 0, warnings: 0'', context = ''ci/lint/pr'' \<rparr>
    \<in> set (fst (updateStatus
         \<lparr> authenticate = (\<lambda>ty tok. if truthy tok then None else Some (ApiError ''token'')),
           createStatus = (\<lambda>d. None) \<rparr>
         [''TRAVIS_EVENT_TYPE'' \<mapsto> ''pull_request'', ''TRAVIS_COMMIT_RANGE'' \<mapsto> ''abc...def'', ''TRAVIS_REPO_SLUG'' \<mapsto> ''o/r'', ''TRAVIS_JOB_ID'' \<mapsto> ''7'', ''TRAVIS_GITHUB_LINT_STATUS_TOKEN'' \<mapsto> ''tok'']
         \<lparr> errorCount = 0, warningCount = 0 \<rparr>))
   \<and> CreateStatus \<lparr> user = JStr ''o'', repo = JStr ''r'', sha = JStr ''abc'', state = ''success'',
      target_url = ''https://travis-ci.org/o/r/jobs/7'',
      description = ''errors: 0, warnings: 0'', context = ''ci/lint/'' @ ''push'' \<rparr>
    \<in> set (fst (updateStatus
         \<lparr> authenticate = (\<lambda>ty tok. if truthy tok then None else Some (ApiError ''token'')),
           createStatus = (\<lambda>d. None) \<rparr>
         [''TRAVIS_EVENT_TYPE'' \<mapsto> ''push'', ''TRAVIS_COMMIT'' \<mapsto> ''abc'', ''TRAVIS_REPO_SLUG'' \<mapsto> ''o/r'', ''TRAVIS_JOB_ID'' \<mapsto> ''7'', ''TRAVIS_GITHUB_LINT_STATUS_TOKEN'' \<mapsto> ''tok'']
         \<lparr> errorCount = 0, warningCount = 0 \<rparr>))"
proof -
  let ?C = "\<lparr> authenticate = (\<lambda>ty tok. if truthy tok then None else Some (ApiError ''token'')),
           createStatus = (\<lambda>d. None) \<rparr>"
  have pr: "CreateStatus \<lparr> user = JStr ''o'', repo = JStr ''r'', sha = JStr ''def'', state = ''success'',
      target_url = ''https://travis-ci.org/o/r/jobs/7'',
      description = ''errors: 0, warnings: 0'', context = ''ci/lint/pr'' \<rparr>
    \<in> set (fst (updateStatus ?C
         [''TRAVIS_EVENT_TYPE'' \<mapsto> ''pull_request'', ''TRAVIS_COMMIT_RANGE'' \<mapsto> ''abc...def'', ''TRAVIS_REPO_SLUG'' \<mapsto> ''o/r'', ''TRAVIS_JOB_ID'' \<mapsto> ''7'', ''TRAVIS_GITHUB_LINT_STATUS_TOKEN'' \<mapsto> ''tok'']
         \<lparr> errorCount = 0, warningCount = 0 \<rparr>))"
    by (simp add: updateStatus_def getCommitTarget_def sendToGitHub_def unhandled_def getenv_def
        split_def index_def string_of_nat.simps digit_char_def)
  have push: "CreateStatus \<lparr> user = JStr ''o'', repo = JStr ''r'', sha = JStr ''abc'', state = ''success'',
      target_url = ''https://travis-ci.org/o/r/jobs/7'',
      description = ''errors: 0, warnings: 0'', context = ''ci/lint/'' @ ''push'' \<rparr>
    \<in> set (fst (updateStatus ?C
         [''TRAVIS_EVENT_TYPE'' \<mapsto> ''push'', ''TRAVIS_COMMIT'' \<mapsto> ''abc'', ''TRAVIS_REPO_SLUG'' \<mapsto> ''o/r'', ''TRAVIS_JOB_ID'' \<mapsto> ''7'', ''TRAVIS_GITHUB_LINT_STATUS_TOKEN'' \<mapsto> ''tok'']
         \<lparr> errorCount = 0, warningCount = 0 \<rparr>))"
    by (simp add: updateStatus_def getCommitTarget_def sendToGitHub_def unhandled_def getenv_def
        split_def index_def string_of_nat.simps digit_char_def)
  from status_context [OF pr] status_context [OF push, of "''push''"] pr push
  show ?thesis by simp
qed

section \<open>The footer of the report\<close>

text \<open>
  C5: \<open>printReportFooter\<close> prints exactly one line, and the three possible lines exclude
  each other: the problems summary exactly when the error count is positive (whatever the
  warning count), the warnings summary exactly when there are warnings and no errors, and
  \<open>no lint issues!\<close> exactly when both counts are zero.
\<close>

theorem footer_message:
  "length (printReportFooter rep) = 1
   \<and> (printReportFooter rep =
         [ConsoleLog [Styled RedBold (JStr ''%d problems (%d errors, %d warnings)''),
            Styled Plain (JNum (errorCount rep + warningCount rep)),
            Styled Plain (JNum (errorCount rep)),
            Styled Plain (JNum (warningCount rep))]]
        \<longleftrightarrow> errorCount rep > 0)
   \<and> (printReportFooter rep =
         [ConsoleLog [Styled YellowBold (JStr ''%d warnings''),
            Styled Plain (JNum (warningCount rep))]]
        \<longleftrightarrow> errorCount rep = 0 \<and> warningCount rep > 0)
   \<and> (printReportFooter rep = [ConsoleLog [Styled GreenBold (JStr ''no lint issues!'')]]
        \<longleftrightarrow> errorCount rep = 0 \<and> warningCount rep = 0)"
  by (simp add: printReportFooter_def)

section \<open>The status request\<close>

lemma split_loop_single_first:
  "split_loop [c] cur s ! 0 = cur @ takeWhile (\<lambda>x. x \<noteq> c) s"
  by (induction s arbitrary: cur) auto

lemma split_loop_nonempty: "split_loop sep cur rest \<noteq> []"
  by (induction sep cur rest rule: split_loop.induct) simp_all

lemma split_slug:
  assumes "CHR ''/'' \<notin> set owner"
  shows "split ''/'' (owner @ ''/'' @ name) = owner # split_loop ''/'' [] name"
  using split_loop_first_match [of "''/''" owner "[]" name] assms
  by (simp add: split_def not_sublist_single)

lemma index_slug:
  assumes "CHR ''/'' \<notin> set owner"
  shows "index (split ''/'' (owner @ ''/'' @ name)) 0 = JStr owner
       \<and> index (split ''/'' (owner @ ''/'' @ name)) 1
           = JStr (takeWhile (\<lambda>x. x \<noteq> CHR ''/'') name)"
proof -
  have "0 < length (split_loop ''/'' [] name)"
    using split_loop_nonempty [of "''/''" "[]" name] by simp
  then show ?thesis
    using split_loop_single_first [of "CHR ''/''" "[]" name]
    by (simp only: split_slug [OF assms] index_def) simp
qed

text \<open>
  C6: when a status is sent (the commit hash is truthy, the repository slug is set and the
  client accepts the authentication), \<open>updateStatus\<close> authenticates and makes one
  status-creation request. Its payload is the record of the seven fields built once from
  the environment and the report (the owner is the field \<open>user\<close> of the client
  library). For a slug \<open>owner/name\<close> the owner field is the segment before the first
  \<open>/\<close> and the repository field the segment after it (up to a further \<open>/\<close>, if any).
\<close>

theorem one_status_request:
  assumes "getCommitTarget e (getenv e ''TRAVIS_EVENT_TYPE'') = (t, Inr s)"
    and "truthy s" and "e ''TRAVIS_REPO_SLUG'' = Some slug"
    and "authenticate api ''oauth'' (getenv e ''TRAVIS_GITHUB_LINT_STATUS_TOKEN'') = None"
  shows "(let d = \<lparr> user = index (split ''/'' slug) 0,
                repo = index (split ''/'' slug) 1,
                sha = s,
                state = (if errorCount rep = 0 then ''success'' else ''failure''),
                target_url = ''https://travis-ci.org/'' @ slug @ ''/jobs/''
                             @ to_string (getenv e ''TRAVIS_JOB_ID''),
                description = ''errors: '' @ string_of_nat (errorCount rep)
                             @ '', warnings: '' @ string_of_nat (warningCount rep),
                context = ''ci/lint/''
                          @ (if getenv e ''TRAVIS_EVENT_TYPE'' = JStr ''pull_request''
                             then ''pr'' else to_string (getenv e ''TRAVIS_EVENT_TYPE'')) \<rparr>
          in fst (updateStatus api e rep) =
               [Authenticate ''oauth'' (getenv e ''TRAVIS_GITHUB_LINT_STATUS_TOKEN''),
                CreateStatus d] @ unhandled (createStatus api d)
             \<and> status_requests (fst (updateStatus api e rep)) = [d])
       \<and> length (status_requests (fst (updateStatus api e rep))) = 1
       \<and> (slug = owner @ ''/'' @ name \<and> CHR ''/'' \<notin> set owner \<longrightarrow>
            map user (status_requests (fst (updateStatus api e rep))) = [JStr owner]
            \<and> map repo (status_requests (fst (updateStatus api e rep)))
                = [JStr (takeWhile (\<lambda>x. x \<noteq> CHR ''/'') name)])
       \<and> (slug = owner @ ''/'' @ name \<and> CHR ''/'' \<notin> set owner \<and> CHR ''/'' \<notin> set name \<longrightarrow>
            map repo (status_requests (fst (updateStatus api e rep))) = [JStr name])"
proof -
  note reqs = updateStatus_requests(1) [OF assms, of rep]
  have tr: "(let d = \<lparr> user = index (split ''/'' slug) 0,
                repo = index (split ''/'' slug) 1,
                sha = s,
                state = (if errorCount rep = 0 then ''success'' else ''failure''),
                target_url = ''https://travis-ci.org/'' @ slug @ ''/jobs/''
                             @ to_string (getenv e ''TRAVIS_JOB_ID''),
                description = ''errors: '' @ string_of_nat (errorCount rep)
                             @ '', warnings: '' @ string_of_nat (warningCount rep),
                context = ''ci/lint/''
                          @ (if getenv e ''TRAVIS_EVENT_TYPE'' = JStr ''pull_request''
                             then ''pr'' else to_string (getenv e ''TRAVIS_EVENT_TYPE'')) \<rparr>
          in fst (updateStatus api e rep) =
               [Authenticate ''oauth'' (getenv e ''TRAVIS_GITHUB_LINT_STATUS_TOKEN''),
                CreateStatus d] @ unhandled (createStatus api d)
             \<and> status_requests (fst (updateStatus api e rep)) = [d])"
    by (simp add: reqs Let_def) (simp add: updateStatus_sends [OF assms] Let_def)
  have users: "map user (status_requests (fst (updateStatus api e rep)))
      = [index (split ''/'' slug) 0]"
    by (simp only: reqs) simp
  have repos: "map repo (status_requests (fst (updateStatus api e rep)))
      = [index (split ''/'' slug) 1]"
    by (simp only: reqs) simp
  have len: "length (status_requests (fst (updateStatus api e rep))) = 1"
    by (simp only: reqs) simp
  have seg: "map user (status_requests (fst (updateStatus api e rep))) = [JStr owner]
            \<and> map repo (status_requests (fst (updateStatus api e rep)))
                = [JStr (takeWhile (\<lambda>x. x \<noteq> CHR ''/'') name)]"
    if "slug = owner @ ''/'' @ name \<and> CHR ''/'' \<notin> set owner"
  proof -
    from that have sl: "slug = owner @ ''/'' @ name" and ow: "CHR ''/'' \<notin> set owner"
      by blast+
    from index_slug [OF ow, of name] show ?thesis
      by (simp only: users repos sl)
  qed
  have whole: "map repo (status_requests (fst (updateStatus api e rep))) = [JStr name]"
    if "slug = owner @ ''/'' @ name \<and> CHR ''/'' \<notin> set owner \<and> CHR ''/'' \<notin> set name"
  proof -
    from that have "takeWhile (\<lambda>x. x \<noteq> CHR ''/'') name = name"
      by (simp add: takeWhile_eq_all_conv) blast
    with seg that show ?thesis by simp
  qed
  from tr len seg whole show ?thesis
    by blast
qed

theorem one_status_request_witness:
  "fst (updateStatus
         \<lparr> authenticate = (\<lambda>ty tok. if truthy tok then None else Some (ApiError ''token'')),
           createStatus = (\<lambda>d. None) \<rparr>
         [''TRAVIS_EVENT_TYPE'' \<mapsto> ''push'', ''TRAVIS_COMMIT'' \<mapsto> ''abc'', ''TRAVIS_REPO_SLUG'' \<mapsto> ''o/r'', ''TRAVIS_JOB_ID'' \<mapsto> ''7'', ''TRAVIS_GITHUB_LINT_STATUS_TOKEN'' \<mapsto> ''tok'']
         \<lparr> errorCount = 0, warningCount = 12 \<rparr>) =
     [Authenticate ''oauth'' (JStr ''tok''),
      CreateStatus \<lparr> user = JStr ''o'', repo = JStr ''r'', sha = JStr ''abc'', state = ''success'',
      target_url = ''https://travis-ci.org/o/r/jobs/7'',
      description = ''errors: 0, warnings: 12'', context = ''ci/lint/push'' \<rparr>]
   \<and> map user (status_requests (fst (updateStatus
         \<lparr> authenticate = (\<lambda>ty tok. if truthy tok then None else Some (ApiError ''token'')),
           createStatus = (\<lambda>d. None) \<rparr>
         [''TRAVIS_EVENT_TYPE'' \<mapsto> ''push'', ''TRAVIS_COMMIT'' \<mapsto> ''abc'', ''TRAVIS_REPO_SLUG'' \<mapsto> ''o/r'', ''TRAVIS_JOB_ID'' \<mapsto> ''7'', ''TRAVIS_GITHUB_LINT_STATUS_TOKEN'' \<mapsto> ''tok'']
         \<lparr> errorCount = 0, warningCount = 12 \<rparr>))) = [JStr ''o'']
   \<and> map repo (status_requests (fst (updateStatus
         \<lparr> authenticate = (\<lambda>ty tok. if truthy tok then None else Some (ApiError ''token'')),
           createStatus = (\<lambda>d. None) \<rparr>
         [''TRAVIS_EVENT_TYPE'' \<mapsto> ''push'', ''TRAVIS_COMMIT'' \<mapsto> ''abc'', ''TRAVIS_REPO_SLUG'' \<mapsto> ''o/r'', ''TRAVIS_JOB_ID'' \<mapsto> ''7'', ''TRAVIS_GITHUB_LINT_STATUS_TOKEN'' \<mapsto> ''tok'']
         \<lparr> errorCount = 0, warningCount = 12 \<rparr>))) = [JStr ''r'']"
proof -
  let ?E = "[''TRAVIS_EVENT_TYPE'' \<mapsto> ''push'', ''TRAVIS_COMMIT'' \<mapsto> ''abc'', ''TRAVIS_REPO_SLUG'' \<mapsto> ''o/r'', ''TRAVIS_JOB_ID'' \<mapsto> ''7'', ''TRAVIS_GITHUB_LINT_STATUS_TOKEN'' \<mapsto> ''tok'']"
  let ?C = "\<lparr> authenticate = (\<lambda>ty tok. if truthy tok then None else Some (ApiError ''token'')),
           createStatus = (\<lambda>d. None) \<rparr>"
  have g: "getCommitTarget ?E (getenv ?E ''TRAVIS_EVENT_TYPE'') = ([], Inr (JStr ''abc''))"
    by (simp add: getCommitTarget_def getenv_def)
  have tr: "truthy (JStr ''abc'')"
    by simp
  have slug: "?E ''TRAVIS_REPO_SLUG'' = Some ''o/r''"
    by simp
  have auth: "authenticate ?C ''oauth'' (getenv ?E ''TRAVIS_GITHUB_LINT_STATUS_TOKEN'') = None"
    by (simp add: getenv_def)
  have seg: "''o/r'' = ''o'' @ ''/'' @ ''r'' \<and> CHR ''/'' \<notin> set ''o'' \<and> CHR ''/'' \<notin> set ''r''"
    by simp
  note th = one_status_request [where e = ?E and t = "[]" and s = "JStr ''abc''"
      and slug = "''o/r''" and api = ?C and rep = "\<lparr> errorCount = 0, warningCount = 12 \<rparr>"
      and owner = "''o''" and name = "''r''", OF g tr slug auth]
  from th [THEN conjunct1]
  have first: "fst (updateStatus ?C ?E \<lparr> errorCount = 0, warningCount = 12 \<rparr>) =
     [Authenticate ''oauth'' (JStr ''tok''),
      CreateStatus \<lparr> user = JStr ''o'', repo = JStr ''r'', sha = JStr ''abc'', state = ''success'',
      target_url = ''https://travis-ci.org/o/r/jobs/7'',
      description = ''errors: 0, warnings: 12'', context = ''ci/lint/push'' \<rparr>]"
    by (simp add: Let_def unhandled_def getenv_def index_def split_def string_of_nat.simps
        digit_char_def)
  from th [THEN conjunct2, THEN conjunct2, THEN conjunct1] seg
  have second: "map user (status_requests (fst (updateStatus ?C ?E \<lparr> errorCount = 0, warningCount = 12 \<rparr>)))
        = [JStr ''o'']"
    by blast
  from th [THEN conjunct2, THEN conjunct2, THEN conjunct2] seg
  have third: "map repo (status_requests (fst (updateStatus ?C ?E \<lparr> errorCount = 0, warningCount = 12 \<rparr>)))
        = [JStr ''r'']"
    by blast
  from first second third show ?thesis
    by (intro conjI)
qed

section \<open>Errors that nothing catches\<close>

lemma status_requests_append:
  "status_requests (xs @ ys) = status_requests xs @ status_requests ys"
  by (induction xs rule: status_requests.induct) simp_all

lemma printMessages_no_request: "status_requests (map printMessage ms) = []"
  by (induction ms) (simp_all add: printMessage_def)

lemma printResults_no_request: "status_requests (printResults rs) = []"
  by (induction rs)
    (simp_all add: status_requests_append printFileResult_def no_issues_line_def
      printMessages_no_request)

lemma printed_no_request: "status_requests (printReport r) = []"
  by (simp add: printReport_def printReportFooter_def status_requests_append
      printResults_no_request)

text \<open>
  C7: for a pull-request event with \<open>TRAVIS_COMMIT_RANGE\<close> not set, and for any event
  whose status would be sent (the commit hash is truthy) with \<open>TRAVIS_REPO_SLUG\<close> not set,
  \<open>updateStatus\<close> throws a \<open>TypeError\<close> before any action: no log-and-skip message, no
  status call. An error thrown by the client's authentication (as on a token that is not
  set) ends \<open>updateStatus\<close> before the status request. Nothing catches these errors: each
  is the outcome of the script, after the printed report. A failed status request is not
  handled either: the script completes, and the run ends with the unhandled rejection.
\<close>

theorem missing_env_uncaught:
  "(e ''TRAVIS_EVENT_TYPE'' = Some ''pull_request'' \<and> e ''TRAVIS_COMMIT_RANGE'' = None \<longrightarrow>
      updateStatus api e r = ([], Inl (TypeError ''split''))
      \<and> main api e r = (printReport r, Inl (TypeError ''split'')))
   \<and> (getCommitTarget e (getenv e ''TRAVIS_EVENT_TYPE'') = (t, Inr s) \<and> truthy s
        \<and> e ''TRAVIS_REPO_SLUG'' = None \<longrightarrow>
      updateStatus api e r = ([], Inl (TypeError ''split''))
      \<and> main api e r = (printReport r, Inl (TypeError ''split'')))
   \<and> (getCommitTarget e (getenv e ''TRAVIS_EVENT_TYPE'') = (t, Inr s) \<and> truthy s
        \<and> e ''TRAVIS_REPO_SLUG'' = Some slug
        \<and> authenticate api ''oauth'' (getenv e ''TRAVIS_GITHUB_LINT_STATUS_TOKEN'') = Some err \<longrightarrow>
      status_requests (fst (main api e r)) = []
      \<and> main api e r =
          (printReport r
             @ [Authenticate ''oauth'' (getenv e ''TRAVIS_GITHUB_LINT_STATUS_TOKEN'')],
           Inl err))
   \<and> (CreateStatus d \<in> set (fst (updateStatus api e r)) \<and> createStatus api d = Some err \<longrightarrow>
      snd (main api e r) = Inr ()
      \<and> last (fst (main api e r)) = UnhandledRejection err)"
proof (intro conjI impI)
  assume a: "e ''TRAVIS_EVENT_TYPE'' = Some ''pull_request'' \<and> e ''TRAVIS_COMMIT_RANGE'' = None"
  then have g: "getCommitTarget e (getenv e ''TRAVIS_EVENT_TYPE'') = ([], Inl (TypeError ''split''))"
    by (simp add: getCommitTarget_def getenv_def)
  show u: "updateStatus api e r = ([], Inl (TypeError ''split''))"
    by (simp add: updateStatus_def Let_def g)
  show "main api e r = (printReport r, Inl (TypeError ''split''))"
    by (simp add: main_def u)
next
  assume a: "getCommitTarget e (getenv e ''TRAVIS_EVENT_TYPE'') = (t, Inr s) \<and> truthy s
        \<and> e ''TRAVIS_REPO_SLUG'' = None"
  then have t: "t = []"
    using getCommitTarget_truthy_silent [of e "getenv e ''TRAVIS_EVENT_TYPE''" t s] by blast
  from a t show u: "updateStatus api e r = ([], Inl (TypeError ''split''))"
    by (simp add: updateStatus_def Let_def getenv_def)
  show "main api e r = (printReport r, Inl (TypeError ''split''))"
    by (simp add: main_def u)
next
  assume a: "getCommitTarget e (getenv e ''TRAVIS_EVENT_TYPE'') = (t, Inr s) \<and> truthy s
        \<and> e ''TRAVIS_REPO_SLUG'' = Some slug
        \<and> authenticate api ''oauth'' (getenv e ''TRAVIS_GITHUB_LINT_STATUS_TOKEN'') = Some err"
  then have h: "getCommitTarget e (getenv e ''TRAVIS_EVENT_TYPE'') = (t, Inr s)" "truthy s"
      "e ''TRAVIS_REPO_SLUG'' = Some slug"
      "authenticate api ''oauth'' (getenv e ''TRAVIS_GITHUB_LINT_STATUS_TOKEN'') = Some err"
    by blast+
  show m: "main api e r =
          (printReport r
             @ [Authenticate ''oauth'' (getenv e ''TRAVIS_GITHUB_LINT_STATUS_TOKEN'')],
           Inl err)"
    by (simp add: main_def updateStatus_rejected [OF h])
  have "status_requests (printReport r) = []"
    by (simp add: printed_no_request)
  then show "status_requests (fst (main api e r)) = []"
    by (simp add: m status_requests_append)
next
  assume a: "CreateStatus d \<in> set (fst (updateStatus api e r)) \<and> createStatus api d = Some err"
  then have sent: "CreateStatus d \<in> set (fst (updateStatus api e r))"
    and fails: "createStatus api d = Some err"
    by blast+
  from updateStatus_request_sent [OF sent] obtain s' slug' where
    h: "getCommitTarget e (getenv e ''TRAVIS_EVENT_TYPE'') = ([], Inr s')" "truthy s'"
       "e ''TRAVIS_REPO_SLUG'' = Some slug'"
       "authenticate api ''oauth'' (getenv e ''TRAVIS_GITHUB_LINT_STATUS_TOKEN'') = None"
    by blast
  note d = updateStatus_requests(2) [OF h sent]
  have "updateStatus api e r =
      ([Authenticate ''oauth'' (getenv e ''TRAVIS_GITHUB_LINT_STATUS_TOKEN''),
        CreateStatus d] @ unhandled (createStatus api d), Inr ())"
    by (simp only: updateStatus_sends [OF h] Let_def d [symmetric])
  with fails have u: "updateStatus api e r =
      ([Authenticate ''oauth'' (getenv e ''TRAVIS_GITHUB_LINT_STATUS_TOKEN''),
        CreateStatus d, UnhandledRejection err], Inr ())"
    by (simp add: unhandled_def)
  show "snd (main api e r) = Inr ()"
    by (simp add: main_def u)
  show "last (fst (main api e r)) = UnhandledRejection err"
    by (simp add: main_def u)
qed

theorem missing_env_uncaught_witness:
  "main \<lparr> authenticate = (\<lambda>ty tok. if truthy tok then None else Some (ApiError ''token'')),
           createStatus = (\<lambda>d. None) \<rparr>
      [''TRAVIS_EVENT_TYPE'' \<mapsto> ''pull_request'', ''TRAVIS_REPO_SLUG'' \<mapsto> ''o/r'', ''TRAVIS_GITHUB_LINT_STATUS_TOKEN'' \<mapsto> ''tok'']
      \<lparr> errorCount = 0, warningCount = 0, results = [] \<rparr>
     = (printReport \<lparr> errorCount = 0, warningCount = 0, results = [] \<rparr>,
        Inl (TypeError ''split''))
   \<and> main \<lparr> authenticate = (\<lambda>ty tok. if truthy tok then None else Some (ApiError ''token'')),
           createStatus = (\<lambda>d. None) \<rparr>
      [''TRAVIS_EVENT_TYPE'' \<mapsto> ''push'', ''TRAVIS_COMMIT'' \<mapsto> ''abc'', ''TRAVIS_GITHUB_LINT_STATUS_TOKEN'' \<mapsto> ''tok'']
      \<lparr> errorCount = 0, warningCount = 0, results = [] \<rparr>
     = (printReport \<lparr> errorCount = 0, warningCount = 0, results = [] \<rparr>,
        Inl (TypeError ''split''))
   \<and> main \<lparr> authenticate = (\<lambda>ty tok. if truthy tok then None else Some (ApiError ''token'')),
           createStatus = (\<lambda>d. None) \<rparr>
      [''TRAVIS_EVENT_TYPE'' \<mapsto> ''push'', ''TRAVIS_COMMIT'' \<mapsto> ''abc'', ''TRAVIS_REPO_SLUG'' \<mapsto> ''o/r'', ''TRAVIS_JOB_ID'' \<mapsto> ''7'']
      \<lparr> errorCount = 0, warningCount = 0, results = [] \<rparr>
     = (printReport \<lparr> errorCount = 0, warningCount = 0, results = [] \<rparr>
          @ [Authenticate ''oauth'' JUndefined],
        Inl (ApiError ''token''))
   \<and> last (fst (main \<lparr> authenticate = (\<lambda>ty tok. if truthy tok then None else Some (ApiError ''token'')),
           createStatus = (\<lambda>d. Some (ApiError ''network'')) \<rparr>
        [''TRAVIS_EVENT_TYPE'' \<mapsto> ''push'', ''TRAVIS_COMMIT'' \<mapsto> ''abc'', ''TRAVIS_REPO_SLUG'' \<mapsto> ''o/r'', ''TRAVIS_JOB_ID'' \<mapsto> ''7'', ''TRAVIS_GITHUB_LINT_STATUS_TOKEN'' \<mapsto> ''tok'']
        \<lparr> errorCount = 0, warningCount = 0, results = [] \<rparr>))
     = UnhandledRejection (ApiError ''network'')"
proof -
  let ?R = "\<lparr> errorCount = 0, warningCount = 0, results = [] \<rparr>"
  let ?C = "\<lparr> authenticate = (\<lambda>ty tok. if truthy tok then None else Some (ApiError ''token'')),
           createStatus = (\<lambda>d. None) \<rparr>"
  let ?F = "\<lparr> authenticate = (\<lambda>ty tok. if truthy tok then None else Some (ApiError ''token'')),
           createStatus = (\<lambda>d. Some (ApiError ''network'')) \<rparr>"
  let ?E1 = "[''TRAVIS_EVENT_TYPE'' \<mapsto> ''pull_request'', ''TRAVIS_REPO_SLUG'' \<mapsto> ''o/r'', ''TRAVIS_GITHUB_LINT_STATUS_TOKEN'' \<mapsto> ''tok'']"
  let ?E2 = "[''TRAVIS_EVENT_TYPE'' \<mapsto> ''push'', ''TRAVIS_COMMIT'' \<mapsto> ''abc'', ''TRAVIS_GITHUB_LINT_STATUS_TOKEN'' \<mapsto> ''tok'']"
  let ?E3 = "[''TRAVIS_EVENT_TYPE'' \<mapsto> ''push'', ''TRAVIS_COMMIT'' \<mapsto> ''abc'', ''TRAVIS_REPO_SLUG'' \<mapsto> ''o/r'', ''TRAVIS_JOB_ID'' \<mapsto> ''7'']"
  let ?E4 = "[''TRAVIS_EVENT_TYPE'' \<mapsto> ''push'', ''TRAVIS_COMMIT'' \<mapsto> ''abc'', ''TRAVIS_REPO_SLUG'' \<mapsto> ''o/r'', ''TRAVIS_JOB_ID'' \<mapsto> ''7'', ''TRAVIS_GITHUB_LINT_STATUS_TOKEN'' \<mapsto> ''tok'']"
  let ?D = "\<lparr> user = JStr ''o'', repo = JStr ''r'', sha = JStr ''abc'', state = ''success'',
      target_url = ''https://travis-ci.org/o/r/jobs/7'',
      description = ''errors: 0, warnings: 0'', context = ''ci/lint/push'' \<rparr>"
  have h1: "?E1 ''TRAVIS_EVENT_TYPE'' = Some ''pull_request'' \<and> ?E1 ''TRAVIS_COMMIT_RANGE'' = None"
    by simp
  have h2: "getCommitTarget ?E2 (getenv ?E2 ''TRAVIS_EVENT_TYPE'') = ([], Inr (JStr ''abc''))
      \<and> truthy (JStr ''abc'') \<and> ?E2 ''TRAVIS_REPO_SLUG'' = None"
    by (simp add: getCommitTarget_def getenv_def)
  have h3: "getCommitTarget ?E3 (getenv ?E3 ''TRAVIS_EVENT_TYPE'') = ([], Inr (JStr ''abc''))
      \<and> truthy (JStr ''abc'') \<and> ?E3 ''TRAVIS_REPO_SLUG'' = Some ''o/r''
      \<and> authenticate ?C ''oauth'' (getenv ?E3 ''TRAVIS_GITHUB_LINT_STATUS_TOKEN'')
          = Some (ApiError ''token'')"
    by (simp add: getCommitTarget_def getenv_def)
  have tok: "getenv ?E3 ''TRAVIS_GITHUB_LINT_STATUS_TOKEN'' = JUndefined"
    by (simp add: getenv_def)
  have h4: "CreateStatus ?D \<in> set (fst (updateStatus ?F ?E4 ?R))
      \<and> createStatus ?F ?D = Some (ApiError ''network'')"
    by (simp add: updateStatus_def getCommitTarget_def sendToGitHub_def unhandled_def getenv_def
        split_def index_def string_of_nat.simps digit_char_def)
  note th1 = missing_env_uncaught [where e = ?E1 and api = ?C and r = ?R]
  note th2 = missing_env_uncaught [where e = ?E2 and api = ?C and r = ?R
      and t = "[]" and s = "JStr ''abc''"]
  note th3 = missing_env_uncaught [where e = ?E3 and api = ?C and r = ?R
      and t = "[]" and s = "JStr ''abc''" and slug = "''o/r''" and err = "ApiError ''token''"]
  note th4 = missing_env_uncaught [where e = ?E4 and api = ?F
      and r = ?R and d = ?D and err = "ApiError ''network''"]
  from th3 [THEN conjunct2, THEN conjunct2, THEN conjunct1, THEN mp, OF h3, THEN conjunct2]
  have r3: "main ?C ?E3 ?R = (printReport ?R @ [Authenticate ''oauth'' JUndefined],
        Inl (ApiError ''token''))"
    by (simp only: tok)
  from th1 [THEN conjunct1, THEN mp, OF h1, THEN conjunct2]
    th2 [THEN conjunct2, THEN conjunct1, THEN mp, OF h2, THEN conjunct2]
    r3
    th4 [THEN conjunct2, THEN conjunct2, THEN conjunct2, THEN mp, OF h4, THEN conjunct2]
  show ?thesis
    by (intro conjI)
qed

section \<open>The order of the bootstrap\<close>

text \<open>
  C8: the bootstrap performs five operations, each once and in this order: it attaches the
  static-file middleware, the JSON body parser and the urlencoded body parser, calls the
  HTTPS server's startup function with the application (carrying the three middlewares)
  and the configuration value, and calls the redirect server's startup function with the
  same configuration value.
\<close>

theorem bootstrap_sequence:
  "performed (bootstrap dirname serverInfo) =
     [Use (Static [dirname, ''../client'']),
      Use (BodyJson ''10mb''),
      Use (BodyUrlencoded ''10mb'' True),
      HttpsRun [Static [dirname, ''../client''], BodyJson ''10mb'',
                BodyUrlencoded ''10mb'' True] serverInfo,
      RunForHttps serverInfo]"
  by (simp add: bootstrap_def app_use_def httpsServer_run_def
      redirectServer_runForHttps_def)

section \<open>Which file results are printed\<close>

lemma printResults_filter:
  "printResults rs =
     concat (map printFileResult
       (filter (\<lambda>r. errorCount r \<noteq> 0 \<or> warningCount r \<noteq> 0) rs))"
  by (induction rs) simp_all

lemma counts_match_messages:
  "counts_match r \<Longrightarrow> errorCount r \<noteq> 0 \<or> warningCount r \<noteq> 0 \<Longrightarrow> messages r \<noteq> []"
  by (auto simp: counts_match_def)

lemma printFileResult_with_messages:
  "messages r \<noteq> [] \<Longrightarrow> no_issues_line \<notin> set (printFileResult r)"
  by (auto simp: printFileResult_def no_issues_line_def printMessage_def)

lemma printResults_with_messages:
  "\<forall>r \<in> set rs. counts_match r \<Longrightarrow> no_issues_line \<notin> set (printResults rs)"
proof (induction rs)
  case Nil
  then show ?case by simp
next
  case (Cons r rs)
  then have rest: "no_issues_line \<notin> set (printResults rs)" and m: "counts_match r"
    by simp_all
  show ?case
  proof (cases "errorCount r \<noteq> 0 \<or> warningCount r \<noteq> 0")
    case True
    with m have "messages r \<noteq> []"
      by (simp add: counts_match_messages)
    then have "no_issues_line \<notin> set (printFileResult r)"
      by (rule printFileResult_with_messages)
    with rest True show ?thesis by simp
  next
    case False
    with rest show ?thesis by simp
  qed
qed

text \<open>
  C9: \<open>printReport\<close> calls \<open>printFileResult\<close> for exactly the file results whose error
  count or warning count is not zero, in order. The report that the script prints is the
  lint engine's, where the counts of every file result are the numbers of its error and
  warning messages; on such a report every printed file result has a non-empty list of
  messages and \<open>printFileResult\<close> never prints \<open>no issues\<close>.
\<close>

theorem printed_results:
  "printReport rep =
     [ConsoleLog [Styled Bold (JStr (''-- begin ESLint report --'' @ [CHR 0x0A]))]]
     @ concat (map printFileResult
         (filter (\<lambda>r. errorCount r \<noteq> 0 \<or> warningCount r \<noteq> 0) (results rep)))
     @ printReportFooter rep
   \<and> ((\<forall>r \<in> set (results rep). counts_match r) \<longrightarrow>
        (\<forall>r \<in> set (results rep). errorCount r \<noteq> 0 \<or> warningCount r \<noteq> 0 \<longrightarrow>
           messages r \<noteq> [])
        \<and> ConsoleLog [Styled Plain (JStr ''no issues'')] \<notin> set (printReport rep))"
proof (intro conjI impI)
  show "printReport rep =
     [ConsoleLog [Styled Bold (JStr (''-- begin ESLint report --'' @ [CHR 0x0A]))]]
     @ concat (map printFileResult
         (filter (\<lambda>r. errorCount r \<noteq> 0 \<or> warningCount r \<noteq> 0) (results rep)))
     @ printReportFooter rep"
    by (simp only: printReport_def printResults_filter)
next
  assume wf: "\<forall>r \<in> set (results rep). counts_match r"
  then show "\<forall>r \<in> set (results rep). errorCount r \<noteq> 0 \<or> warningCount r \<noteq> 0 \<longrightarrow>
           messages r \<noteq> []"
    using counts_match_messages by blast
  from printResults_with_messages [OF wf]
  have "ConsoleLog [Styled Plain (JStr ''no issues'')] \<notin> set (printResults (results rep))"
    by (simp add: no_issues_line_def)
  then show "ConsoleLog [Styled Plain (JStr ''no issues'')] \<notin> set (printReport rep)"
    by (simp add: printReport_def printReportFooter_def)
qed

theorem printed_results_witness:
  "counts_match \<lparr> errorCount = 1, warningCount = 0, filePath = ''a.js'',
       messages = [\<lparr> severity = 2, line = 3, message = ''Unexpected var.'',
                     ruleId = JStr ''no-var'' \<rparr>] \<rparr>
   \<and> ConsoleLog [Styled Plain (JStr ''no issues'')] \<notin> set (printReport
       \<lparr> errorCount = 1, warningCount = 0,
         results = [\<lparr> errorCount = 1, warningCount = 0, filePath = ''a.js'',
           messages = [\<lparr> severity = 2, line = 3, message = ''Unexpected var.'',
                         ruleId = JStr ''no-var'' \<rparr>] \<rparr>,
           \<lparr> errorCount = 0, warningCount = 0, filePath = ''b.js'', messages = [] \<rparr>] \<rparr>)"
proof -
  let ?A = "\<lparr> errorCount = 1, warningCount = 0, filePath = ''a.js'',
       messages = [\<lparr> severity = 2, line = 3, message = ''Unexpected var.'',
                     ruleId = JStr ''no-var'' \<rparr>] \<rparr>"
  let ?B = "\<lparr> errorCount = 0, warningCount = 0, filePath = ''b.js'', messages = [] \<rparr>"
  let ?R = "\<lparr> errorCount = 1, warningCount = 0, results = [?A, ?B] \<rparr>"
  have a: "counts_match ?A"
    by (simp add: counts_match_def)
  have b: "counts_match ?B"
    by (simp add: counts_match_def)
  from a b have wf: "\<forall>r \<in> set (results ?R). counts_match r"
    by simp
  from printed_results [of ?R, THEN conjunct2, THEN mp, OF wf, THEN conjunct2] a
  show ?thesis
    by (rule conjI [rotated])
qed

end
